theory Spec2Isabelle
  imports Complex_Main
begin

section \<open>The SEIR script with demography (modelo.py)\<close>

text \<open>
  The script defines one function, \<open>model\<close>, the right-hand side of a four-compartment
  ordinary differential equation, and then runs linearly: constants, a time grid, one
  call of the library integrator, the split of its result into four series, nine
  plotting calls.

  Numbers: Python's \<open>float\<close> is read as exact arithmetic. \<open>model\<close> itself is
  defined over any type with \<open>+\<close>, \<open>-\<close> and \<open>*\<close> and uses no law of arithmetic, so
  what is proved of it at that generality holds for any deterministic arithmetic; every
  statement that needs the laws of a field is stated over \<open>real\<close>.
\<close>

subsection \<open>Exceptions\<close>

text \<open>
  \<open>ValueError\<close> is what the tuple assignments \<open>S, E, I, R = ...\<close> raise on a sequence
  that does not have four elements. \<open>Raised d\<close> is an exception of a library, with its
  diagnostic \<open>d\<close>.
\<close>

datatype error = ValueError | Raised string

subsection \<open>The derivative function\<close>

text \<open>
  \<^verbatim>\<open>
  def model(y, t, beta, sigma, gamma, mu):
      S, E, I, R = y
      dSdt = mu - beta * S * I - mu * S
      dEdt = beta * S * I - (sigma + mu) * E
      dIdt = sigma * E - (gamma + mu) * I
      dRdt = gamma * I - mu * R
      return [dSdt, dEdt, dIdt, dRdt]
  \<close>
\<close>

fun model :: "'a::{plus,minus,times} list \<Rightarrow> 't \<Rightarrow> 'a \<Rightarrow> 'a \<Rightarrow> 'a \<Rightarrow> 'a \<Rightarrow> error + 'a list" where
  "model [S, E, I, R] t beta sigma gamma mu =
     (let dSdt = mu - beta * S * I - mu * S;
          dEdt = beta * S * I - (sigma + mu) * E;
          dIdt = sigma * E - (gamma + mu) * I;
          dRdt = gamma * I - mu * R
      in Inr [dSdt, dEdt, dIdt, dRdt])"
| "model y t beta sigma gamma mu = Inl ValueError"

subsection \<open>Observations on the derivative vector\<close>

text \<open>The sum of the four rates that \<open>model\<close> returns: the rate of the total population.\<close>

definition derivative_sum :: "real list \<Rightarrow> real \<Rightarrow> real \<Rightarrow> real \<Rightarrow> real \<Rightarrow> real \<Rightarrow> error + real" where
  "derivative_sum y t beta sigma gamma mu =
     (case model y t beta sigma gamma mu of Inl e \<Rightarrow> Inl e | Inr d \<Rightarrow> Inr (sum_list d))"

text \<open>
  \<open>rate_nonpos k\<close>: \<open>model\<close> returns a vector and its component \<open>k\<close> (Python index:
  0 for S, 1 for E, 2 for I, 3 for R) is not positive.
\<close>

definition rate_nonpos :: "nat \<Rightarrow> real list \<Rightarrow> real \<Rightarrow> real \<Rightarrow> real \<Rightarrow> real \<Rightarrow> real \<Rightarrow> bool" where
  "rate_nonpos k y t beta sigma gamma mu =
     (case model y t beta sigma gamma mu of Inl e \<Rightarrow> False | Inr d \<Rightarrow> k < length d \<and> d ! k \<le> 0)"

subsection \<open>The constants of the script\<close>

text \<open>
  The module-level names \<open>beta\<close>, \<open>sigma\<close>, \<open>gamma\<close>, \<open>mu\<close> and \<open>t\<close> carry the prefix
  \<open>script_\<close> here, so that they stay apart from the parameters of \<open>model\<close>.
\<close>

definition script_beta :: real where "script_beta = 4091 / 10000"
definition script_sigma :: real where "script_sigma = 1818 / 10000"
definition script_gamma :: real where "script_gamma = 1428 / 10000"
definition script_mu :: real where "script_mu = 25 / 10000"

definition S0 :: real where "S0 = 99991 / 100000"
definition E0 :: real where "E0 = 1 / 1000"
definition I0 :: real where "I0 = 8 / 100000"
definition R0 :: real where "R0 = 0"


subsection \<open>The time grid\<close>

text \<open>
  \<open>numpy.linspace(start, stop, num)\<close> with its default \<open>endpoint=True\<close>, in exact
  arithmetic: \<open>num\<close> evenly spaced points, the first \<open>start\<close> and, from two points on,
  the last \<open>stop\<close>. One point is \<open>start\<close> alone (the step is not defined there).
\<close>

definition linspace :: "real \<Rightarrow> real \<Rightarrow> nat \<Rightarrow> real list" where
  "linspace start stop num =
     (if num = 0 then []
      else if num = 1 then [start]
      else map (\<lambda>i. start + real i * ((stop - start) / real (num - 1))) [0..<num])"

subsection \<open>The integrator and the run of the script\<close>

text \<open>
  \<open>scipy.integrate.odeint\<close> is a library routine, not code of this repository. The run
  takes it as a parameter: a function of the right-hand side (with \<open>args\<close> already
  applied), the initial state and the time grid, which either raises or returns one row
  per grid point. Nothing is assumed of the numbers it returns.
\<close>

type_synonym rhs = "real list \<Rightarrow> real \<Rightarrow> error + real list"

type_synonym integrator = "rhs \<Rightarrow> real list \<Rightarrow> real list \<Rightarrow> error + real list list"

text \<open>
  The calls of \<open>matplotlib.pyplot\<close>, in the order the script makes them. The labels
  are sequences of code points, as Python strings are: \<open>CHR 0xED\<close> is i with acute,
  \<open>CHR 0xE7\<close> c with cedilla, \<open>CHR 0xE3\<close> a with tilde.
\<close>

datatype plot_call =
    Plot "real list" "real list" string
  | Xlabel string
  | Ylabel string
  | Title string
  | Legend
  | Show

text \<open>
  What a run leaves behind: the plotting calls it made, and the exception that ended
  it (\<open>None\<close> for a normal exit).
\<close>

record run =
  plotted :: "plot_call list"
  outcome :: "error option"

text \<open>
  \<^verbatim>\<open>
  t = np.linspace(0, 200, 1000)
  solution = odeint(model, [S0, E0, I0, R0], t, args=(beta, sigma, gamma, mu))
  S, E, I, R = solution.T
  plt.plot(t, S, label=...)   (four series)
  plt.xlabel(...); plt.ylabel(...); plt.title(...); plt.legend(); plt.show()
  \<close>
  There is no \<open>try\<close> and no loop in the script: an exception of \<open>odeint\<close>, or of the
  tuple assignment, ends the run where it is raised. The array \<open>solution\<close> is its list
  of rows, and \<open>solution.T\<close> the list of its columns.
\<close>

definition script :: "integrator \<Rightarrow> run" where
  "script odeint =
     (let t = linspace 0 200 1000 in
      case odeint (\<lambda>y t. model y t script_beta script_sigma script_gamma script_mu)
             [S0, E0, I0, R0] t of
        Inl e \<Rightarrow> \<lparr>plotted = [], outcome = Some e\<rparr>
      | Inr solution \<Rightarrow>
          (case transpose solution of
             [S, E, I, R] \<Rightarrow>
               \<lparr>plotted =
                  [Plot t S (''Suscet'' @ [CHR 0xED] @ ''veis''),
                   Plot t E ''Expostos'',
                   Plot t I ''Infectados'',
                   Plot t R ''Recuperados'',
                   Xlabel ''Tempo'',
                   Ylabel (''Fra'' @ [CHR 0xE7, CHR 0xE3] @ ''o da popula''
                           @ [CHR 0xE7, CHR 0xE3] @ ''o''),
                   Title ''Modelo SEIR da Epidemiologia com Demografia'',
                   Legend,
                   Show],
                outcome = None\<rparr>
           | _ \<Rightarrow> \<lparr>plotted = [], outcome = Some ValueError\<rparr>))"

subsection \<open>The continuous system\<close>

text \<open>
  The initial value problem that the script hands to the integrator: on the horizon
  \<open>[0, T]\<close>, four differentiable functions whose derivatives at every time are the four
  rates that \<open>model\<close> returns at the state of that time. This is the exact trajectory, the
  one an integrator approximates; it is a predicate, not code.
\<close>

definition seir_solution ::
  "real \<Rightarrow> (real \<Rightarrow> real) \<Rightarrow> (real \<Rightarrow> real) \<Rightarrow> (real \<Rightarrow> real) \<Rightarrow> (real \<Rightarrow> real) \<Rightarrow>
   real \<Rightarrow> real \<Rightarrow> real \<Rightarrow> real \<Rightarrow> bool" where
  "seir_solution T S E I R beta sigma gamma mu \<longleftrightarrow>
     (\<forall>t\<in>{0..T}. \<exists>dS dE dI dR.
        model [S t, E t, I t, R t] t beta sigma gamma mu = Inr [dS, dE, dI, dR] \<and>
        (S has_real_derivative dS) (at t within {0..T}) \<and>
        (E has_real_derivative dE) (at t within {0..T}) \<and>
        (I has_real_derivative dI) (at t within {0..T}) \<and>
        (R has_real_derivative dR) (at t within {0..T}))"

section \<open>Auxiliary facts\<close>

subsection \<open>The rates along a solution\<close>

lemma seir_solution_rates:
  assumes "seir_solution T S E I R beta sigma gamma mu" and "t \<in> {0..T}"
  shows "(S has_real_derivative (mu - beta * S t * I t - mu * S t)) (at t within {0..T})"
    and "(E has_real_derivative (beta * S t * I t - (sigma + mu) * E t)) (at t within {0..T})"
    and "(I has_real_derivative (sigma * E t - (gamma + mu) * I t)) (at t within {0..T})"
    and "(R has_real_derivative (gamma * I t - mu * R t)) (at t within {0..T})"
  using assms unfolding seir_solution_def by (auto simp: Let_def)

lemma derivative_sum_eq:
  "derivative_sum [s, e, i, r] t beta sigma gamma mu = Inr (mu * (1 - (s + e + i + r)))"
  by (simp add: derivative_sum_def Let_def algebra_simps)

subsection \<open>Linear decay on a horizon\<close>

text \<open>A function whose derivative vanishes on \<open>[0, T]\<close> keeps its value at 0.\<close>

lemma zero_derivative_constant:
  fixes g :: "real \<Rightarrow> real"
  assumes der: "\<And>u. u \<in> {0..T} \<Longrightarrow> (g has_real_derivative 0) (at u within {0..T})"
    and t: "t \<in> {0..T}"
  shows "g t = g 0"
proof (cases "0 < T")
  case True
  have cont: "continuous_on {0..T} g"
    by (rule DERIV_continuous_on) (rule der)
  have inner: "DERIV g x :> 0" if "0 < x" "x < T" for x
  proof -
    have "(g has_real_derivative 0) (at x within {0..T})"
      using that by (intro der) simp
    then show ?thesis
      using that by (simp add: at_within_Icc_at)
  qed
  show ?thesis
    using DERIV_isconst2 [OF True cont inner, of t] t by simp
next
  case False
  with t have "t = 0" by simp
  then show ?thesis by simp
qed

text \<open>The only solution of \<open>f' = - k f\<close> on \<open>[0, T]\<close> is the exponential one.\<close>

lemma decay_closed_form:
  fixes f :: "real \<Rightarrow> real"
  assumes der: "\<And>u. u \<in> {0..T} \<Longrightarrow> (f has_real_derivative (- k * f u)) (at u within {0..T})"
    and t: "t \<in> {0..T}"
  shows "f t = f 0 * exp (- k * t)"
proof -
  define g where "g u = f u * exp (k * u)" for u
  have "(g has_real_derivative 0) (at u within {0..T})" if "u \<in> {0..T}" for u
    unfolding g_def
    by (rule derivative_eq_intros der [OF that] refl)+ (simp add: algebra_simps)
  then have "g t = g 0"
    using t by (rule zero_derivative_constant)
  then have "f t * exp (k * t) = f 0"
    by (simp add: g_def)
  then have "f t * exp (k * t) * exp (- k * t) = f 0 * exp (- k * t)"
    by simp
  then show ?thesis
    by (simp add: mult.assoc flip: exp_add)
qed


text \<open>Without transmission the exposed compartment only drains.\<close>

lemma exposed_closed_form:
  assumes sol: "seir_solution T S E I R 0 sigma gamma mu" and t: "t \<in> {0..T}"
  shows "E t = E 0 * exp (- (sigma + mu) * t)"
proof -
  have "(E has_real_derivative (- (sigma + mu) * E u)) (at u within {0..T})" if "u \<in> {0..T}" for u
    using seir_solution_rates(2) [OF sol that] by (simp add: algebra_simps)
  then show ?thesis
    using t by (rule decay_closed_form)
qed

subsection \<open>Three explicit solutions\<close>

text \<open>
  No transmission, \<open>sigma = 1\<close>, no recovery, no demography: the exposed become
  infectious, \<open>E = exp (- t)\<close> and \<open>I = 1 - exp (- t)\<close>.
\<close>

lemma beta_zero_example_solution:
  "seir_solution 1 (\<lambda>t. 0) (\<lambda>t. exp (- t)) (\<lambda>t. 1 - exp (- t)) (\<lambda>t. 0) 0 1 0 0"
  unfolding seir_solution_def
  by (auto simp: Let_def intro!: derivative_eq_intros)



subsection \<open>The run: plotting happens exactly when nothing was raised\<close>

lemma length_linspace: "length (linspace start stop num) = num"
  by (simp add: linspace_def)

lemma plotted_iff_no_exception:
  "plotted (script odeint) = [] \<longleftrightarrow> outcome (script odeint) \<noteq> None"
  by (simp add: script_def Let_def split: sum.splits list.splits)

section \<open>The derivative function: what it returns\<close>

text \<open>
  C1. For every state \<open>(S, E, I, R)\<close>, every time and all parameters, \<open>model\<close> returns
  exactly the vector
  \<open>[mu - beta*S*I - mu*S, beta*S*I - (sigma+mu)*E, sigma*E - (gamma+mu)*I, gamma*I - mu*R]\<close>,
  in this order. It holds for any arithmetic, the reals among them.
\<close>

theorem model_returns_seir_rates:
  "model [S, E, I, R] t beta sigma gamma mu =
     Inr [mu - beta * S * I - mu * S,
          beta * S * I - (sigma + mu) * E,
          sigma * E - (gamma + mu) * I,
          gamma * I - mu * R]"
  by (simp add: Let_def)

text \<open>
  C6. \<open>model\<close> is time-invariant: at any two times it returns the same result for the
  same state and parameters, a \<open>ValueError\<close> on a malformed state included.
\<close>

theorem model_time_invariant:
  "model y t1 beta sigma gamma mu = model y t2 beta sigma gamma mu"
  by (induction y t1 beta sigma gamma mu rule: model.induct) simp_all

section \<open>Conservation of the total population\<close>



text \<open>
  C10. The script's own initial state sums to 1.00099, more than 1, so it does not
  start with sum 1. At that state, with the script's parameters, the four rates sum to
  \<open>mu * (1 - 1.00099) = - 0.000002475\<close>, which is not zero: the sum is not held at
  1.00099 (by \<open>total_population_closed_form\<close> it moves towards 1 along any solution).
\<close>

theorem script_initial_sum_not_conserved:
  "S0 + E0 + I0 + R0 = 100099 / 100000 \<and>
   1 < S0 + E0 + I0 + R0 \<and>
   derivative_sum [S0, E0, I0, R0] t script_beta script_sigma script_gamma script_mu =
     Inr (script_mu * (1 - (S0 + E0 + I0 + R0))) \<and>
   script_mu * (1 - (S0 + E0 + I0 + R0)) = - (99 / 40000000)"
  by (simp add: derivative_sum_eq) (simp add: S0_def E0_def I0_def R0_def script_mu_def)

text \<open>
  Against C10 as it was stated (the sum stays at 1.00099): the rate of the sum at the
  script's initial state is not zero.
\<close>

theorem script_initial_sum_rate_nonzero:
  "derivative_sum [S0, E0, I0, R0] 0 script_beta script_sigma script_gamma script_mu \<noteq> Inr 0"
  by (simp add: derivative_sum_eq) (simp add: S0_def E0_def I0_def R0_def script_mu_def)

section \<open>No transmission\<close>

text \<open>
  C3, as amended. With \<open>beta = 0\<close> and non-negative \<open>sigma\<close> and \<open>mu\<close>: at every state
  with \<open>E \<ge> 0\<close> the E-rate returned by \<open>model\<close> is not positive, and along every
  solution of the continuous system with \<open>E 0 \<ge> 0\<close> the component E is non-increasing.
  The I-rate is \<open>sigma * E - (gamma + mu) * I\<close>: it is not positive exactly where
  \<open>sigma * E \<le> (gamma + mu) * I\<close>, so I can grow while the exposed become infectious.
\<close>

theorem beta_zero_exposed_nonincreasing:
  "(\<forall>s e i r t sigma gamma mu.
      0 \<le> e \<and> 0 \<le> sigma \<and> 0 \<le> mu \<longrightarrow>
      rate_nonpos 1 [s, e, i, r] t 0 sigma gamma mu \<and>
      (rate_nonpos 2 [s, e, i, r] t 0 sigma gamma mu \<longleftrightarrow> sigma * e \<le> (gamma + mu) * i)) \<and>
   (\<forall>T S E I R sigma gamma mu.
      seir_solution T S E I R 0 sigma gamma mu \<and> 0 \<le> E 0 \<and> 0 \<le> sigma \<and> 0 \<le> mu \<longrightarrow>
      (\<forall>u\<in>{0..T}. \<forall>v\<in>{u..T}. E v \<le> E u))"
proof (intro conjI allI impI ballI)
  fix s e i r t sigma gamma mu :: real
  assume "0 \<le> e \<and> 0 \<le> sigma \<and> 0 \<le> mu"
  then show "rate_nonpos 1 [s, e, i, r] t 0 sigma gamma mu"
    by (simp add: rate_nonpos_def Let_def)
next
  fix s e i r t sigma gamma mu :: real
  show "rate_nonpos 2 [s, e, i, r] t 0 sigma gamma mu \<longleftrightarrow> sigma * e \<le> (gamma + mu) * i"
    by (simp add: rate_nonpos_def Let_def numeral_2_eq_2)
next
  fix T sigma gamma mu u v :: real and S E I R :: "real \<Rightarrow> real"
  assume h: "seir_solution T S E I R 0 sigma gamma mu \<and> 0 \<le> E 0 \<and> 0 \<le> sigma \<and> 0 \<le> mu"
    and u: "u \<in> {0..T}" and v: "v \<in> {u..T}"
  from v u have v': "v \<in> {0..T}" by simp
  define k where "k = sigma + mu"
  from h have sol: "seir_solution T S E I R 0 sigma gamma mu"
    by simp
  have closed: "E w = E 0 * exp (- k * w)" if "w \<in> {0..T}" for w
    unfolding k_def by (rule exposed_closed_form [OF sol that])
  have "k * u \<le> k * v"
    using h v by (intro mult_left_mono) (simp_all add: k_def)
  then have "exp (- k * v) \<le> exp (- k * u)"
    by simp
  then have "E 0 * exp (- k * v) \<le> E 0 * exp (- k * u)"
    using h by (intro mult_left_mono) simp_all
  then show "E v \<le> E u"
    by (simp only: closed [OF u] closed [OF v'])
qed

theorem beta_zero_exposed_nonincreasing_witness:
  "rate_nonpos 1 [0, 1, 0, 0] 0 0 1 0 0 \<and>
   \<not> rate_nonpos 2 [0, 1, 0, 0] 0 0 1 0 0 \<and>
   seir_solution 1 (\<lambda>t. 0) (\<lambda>t. exp (- t)) (\<lambda>t. 1 - exp (- t)) (\<lambda>t. 0) 0 1 0 0 \<and>
   exp (- 1) \<le> exp (- (1/2 :: real))"
proof -
  have a: "rate_nonpos 1 [0, 1, 0, 0] 0 0 1 0 0 \<and> \<not> rate_nonpos 2 [0, 1, 0, 0] 0 0 1 0 0"
    using beta_zero_exposed_nonincreasing [THEN conjunct1, rule_format, of 1 1 0 0 0 0 0 0]
    by simp
  have "\<forall>u\<in>{0..1}. \<forall>v\<in>{u..1}. exp (- v) \<le> exp (- u :: real)"
    using beta_zero_exposed_nonincreasing [THEN conjunct2, rule_format,
        of 1 "\<lambda>t. 0" "\<lambda>t. exp (- t)" "\<lambda>t. 1 - exp (- t)" "\<lambda>t. 0" 1 0 0]
      beta_zero_example_solution
    by simp
  then have "exp (- 1) \<le> exp (- (1/2 :: real))"
    by simp
  then show ?thesis
    using a beta_zero_example_solution by simp
qed

text \<open>
  Against C3 as it was stated (with \<open>beta = 0\<close> the I-rate is never positive and I never
  grows): at the script's own initial state, with \<open>beta = 0\<close> and the script's other
  parameters, the I-rate is positive; and on the explicit solution above, which has
  \<open>beta = 0\<close> and stays non-negative, I is larger at time 1 than at time 0.
\<close>

theorem beta_zero_infected_can_increase:
  "\<not> rate_nonpos 2 [S0, E0, I0, R0] 0 0 script_sigma script_gamma script_mu \<and>
   seir_solution 1 (\<lambda>t. 0) (\<lambda>t. exp (- t)) (\<lambda>t. 1 - exp (- t)) (\<lambda>t. 0) 0 1 0 0 \<and>
   (1 - exp (- 0)) < (1 - exp (- (1::real)))"
  using beta_zero_example_solution
  by (simp add: rate_nonpos_def Let_def numeral_2_eq_2 S0_def E0_def I0_def R0_def
      script_sigma_def script_gamma_def script_mu_def)

section \<open>All rates zero\<close>



section \<open>A failing integrator\<close>



end
